theory Spec2Isabelle
  imports Main "HOL-Library.Word"
begin

unbundle bit_operations_syntax

section \<open>Go values used by utils.go\<close>

text \<open>
  The file \<^verbatim>\<open>utils.go\<close> works on values of Go's \<^verbatim>\<open>net\<close> package
  and calls the kernel through \<^verbatim>\<open>netlink\<close> and the CNI helper packages.
  Those packages are not part of the repository. The pure functions of \<^verbatim>\<open>net\<close>
  that the file calls are written out below after the Go standard library (the release
  line the repository was written against, Go 1.7); the kernel calls are parameters of
  the model (section \<open>The kernel interface\<close>).

  A Go \<^verbatim>\<open>string\<close> is a sequence of bytes and so is \<open>string\<close> here. A byte
  slice is a list of \<open>8 word\<close>; the \<^verbatim>\<open>nil\<close> slice is the empty list (none of
  the functions below ever returns an empty slice that is not \<^verbatim>\<open>nil\<close>).
\<close>

type_synonym byte = "8 word"

text \<open>\<^verbatim>\<open>type IP []byte\<close>, \<^verbatim>\<open>type IPMask []byte\<close>, \<^verbatim>\<open>type HardwareAddr []byte\<close>.\<close>

type_synonym IP = "byte list"
type_synonym IPMask = "byte list"
type_synonym HardwareAddr = "byte list"

text \<open>\<^verbatim>\<open>type IPNet struct { IP IP; Mask IPMask }\<close>\<close>

record IPNet =
  IP :: IP
  Mask :: IPMask

text \<open>
  An \<^verbatim>\<open>error\<close> value that comes out of a library: a \<^verbatim>\<open>syscall.Errno\<close>
  (what netlink returns for a kernel refusal) or any other error, known by its message.
\<close>

datatype go_error = Errno nat | ErrorString string

definition ENOENT :: go_error where "ENOENT = Errno 2"
definition EEXIST :: go_error where "EEXIST = Errno 17"
definition ENODEV :: go_error where "ENODEV = Errno 19"
definition ENOTEMPTY :: go_error where "ENOTEMPTY = Errno 39"

text \<open>
  \<^verbatim>\<open>err.Error() == "file exists"\<close>. In the errno table of package syscall on Linux
  that text belongs to \<^verbatim>\<open>EEXIST\<close> alone, and the text of an errno without an entry
  is \<^verbatim>\<open>"errno N"\<close>.
\<close>

fun Error_is_file_exists :: "go_error \<Rightarrow> bool" where
  "Error_is_file_exists (Errno n) = (n = 17)"
| "Error_is_file_exists (ErrorString s) = (s = ''file exists'')"

text \<open>
  \<^verbatim>\<open>os.IsExist(err)\<close>: true of \<^verbatim>\<open>EEXIST\<close> and \<^verbatim>\<open>ENOTEMPTY\<close>; an error that
  is only a message is not recognised.
\<close>

fun os_IsExist :: "go_error \<Rightarrow> bool" where
  "os_IsExist (Errno n) = (n = 17 \<or> n = 39)"
| "os_IsExist (ErrorString s) = False"

subsection \<open>Package net: addresses and masks\<close>

definition v4InV6Prefix :: "byte list" where
  "v4InV6Prefix = [0, 0, 0, 0, 0, 0, 0, 0, 0, 0, 0xff, 0xff]"

text \<open>\<^verbatim>\<open>func IPv4(a, b, c, d byte) IP\<close>: the 16-byte form of an IPv4 address.\<close>

definition IPv4 :: "byte \<Rightarrow> byte \<Rightarrow> byte \<Rightarrow> byte \<Rightarrow> IP" where
  "IPv4 a b c d = v4InV6Prefix @ [a, b, c, d]"

text \<open>
  \<^verbatim>\<open>func (ip IP) To4() IP\<close>: the 4-byte form, or \<^verbatim>\<open>nil\<close> when \<open>ip\<close> is not an
  IPv4 address.
\<close>

definition To4 :: "IP \<Rightarrow> IP" where
  "To4 ip =
     (if length ip = 4 then ip
      else if length ip = 16 \<and> take 12 ip = v4InV6Prefix then drop 12 ip
      else [])"

text \<open>\<^verbatim>\<open>func CIDRMask(ones, bits int) IPMask\<close>, for \<open>0 \<le> ones\<close>.\<close>

definition CIDRMask :: "nat \<Rightarrow> nat \<Rightarrow> IPMask" where
  "CIDRMask ones bits =
     (if bits \<noteq> 32 \<and> bits \<noteq> 128 then []
      else if ones > bits then []
      else map (\<lambda>i. if ones - 8 * i \<ge> 8 then 0xff else NOT (drop_bit (ones - 8 * i) (0xff :: byte)))
             [0 ..< bits div 8])"

text \<open>\<^verbatim>\<open>func (ip IP) Mask(mask IPMask) IP\<close>\<close>

definition IP_Mask :: "IP \<Rightarrow> IPMask \<Rightarrow> IP" where
  "IP_Mask ip m =
     (let mask1 = (if length m = 16 \<and> length ip = 4 \<and> list_all (\<lambda>b. b = 0xff) (take 12 m)
                   then drop 12 m else m);
          ip1 = (if length mask1 = 4 \<and> length ip = 16 \<and> take 12 ip = v4InV6Prefix
                 then drop 12 ip else ip)
      in if length ip1 \<noteq> length mask1 then [] else map2 (AND) ip1 mask1)"

text \<open>
  \<^verbatim>\<open>func networkNumberAndMask(n *IPNet) (ip IP, m IPMask)\<close>; the pair
  \<^verbatim>\<open>(nil, nil)\<close> is \<open>([], [])\<close>.
\<close>

definition networkNumberAndMask :: "IPNet \<Rightarrow> IP \<times> IPMask" where
  "networkNumberAndMask n =
     (let ip = (if To4 (IP n) = [] then IP n else To4 (IP n)) in
      if To4 (IP n) = [] \<and> length ip \<noteq> 16 then ([], [])
      else if length (Mask n) = 4 then (if length ip \<noteq> 4 then ([], []) else (ip, Mask n))
      else if length (Mask n) = 16 then (if length ip = 4 then (ip, drop 12 (Mask n)) else (ip, Mask n))
      else ([], []))"

text \<open>\<^verbatim>\<open>func (n *IPNet) Contains(ip IP) bool\<close>\<close>

definition Contains :: "IPNet \<Rightarrow> IP \<Rightarrow> bool" where
  "Contains n ip =
     (case networkNumberAndMask n of (nn, m) \<Rightarrow>
        let ip1 = (if To4 ip \<noteq> [] then To4 ip else ip) in
        if length ip1 \<noteq> length nn then False
        else map2 (AND) nn m = map2 (AND) ip1 m)"

subsection \<open>Package net: parsing\<close>

definition isDigit :: "char \<Rightarrow> bool" where
  "isDigit c = (48 \<le> (of_char c :: nat) \<and> (of_char c :: nat) \<le> 57)"

definition hexVal :: "char \<Rightarrow> nat option" where
  "hexVal c =
     (let k = (of_char c :: nat) in
      if 48 \<le> k \<and> k \<le> 57 then Some (k - 48)
      else if 97 \<le> k \<and> k \<le> 102 then Some (k - 97 + 10)
      else if 65 \<le> k \<and> k \<le> 70 then Some (k - 65 + 10)
      else None)"

text \<open>\<^verbatim>\<open>const big = 0xFFFFFF\<close>: the bound at which \<^verbatim>\<open>dtoi\<close> and \<^verbatim>\<open>xtoi\<close> give up.\<close>

definition big :: nat where
  "big = 0xFFFFFF"

text \<open>
  \<^verbatim>\<open>func dtoi(s string, i0 int) (n int, i int, ok bool)\<close>, with the rest of the
  string in the place of the index \<open>i\<close>. The loop gives \<open>None\<close> when the number
  reaches \<open>big\<close>.
\<close>

fun dtoi_loop :: "nat \<Rightarrow> string \<Rightarrow> (nat \<times> string) option" where
  "dtoi_loop n [] = Some (n, [])"
| "dtoi_loop n (c # cs) =
     (if isDigit c
      then (let n1 = n * 10 + (of_char c - 48) in
            if n1 \<ge> big then None else dtoi_loop n1 cs)
      else Some (n, c # cs))"

definition dtoi :: "string \<Rightarrow> nat \<times> string \<times> bool" where
  "dtoi s =
     (case dtoi_loop 0 s of
        None \<Rightarrow> (0, s, False)
      | Some (n, rest) \<Rightarrow> if length rest = length s then (0, s, False) else (n, rest, True))"

text \<open>\<^verbatim>\<open>func xtoi(s string, i0 int) (n int, i int, ok bool)\<close>, likewise.\<close>

fun xtoi_loop :: "nat \<Rightarrow> string \<Rightarrow> (nat \<times> string) option" where
  "xtoi_loop n [] = Some (n, [])"
| "xtoi_loop n (c # cs) =
     (case hexVal c of
        None \<Rightarrow> Some (n, c # cs)
      | Some d \<Rightarrow> (let n1 = n * 16 + d in if n1 \<ge> big then None else xtoi_loop n1 cs))"

definition xtoi :: "string \<Rightarrow> nat \<times> string \<times> bool" where
  "xtoi s =
     (case xtoi_loop 0 s of
        None \<Rightarrow> (0, s, False)
      | Some (n, rest) \<Rightarrow> if length rest = length s then (0, s, False) else (n, rest, True))"

text \<open>
  \<^verbatim>\<open>func parseIPv4(s string) IP\<close>: four decimal fields of at most 255, separated by
  dots, and nothing after them. The loop runs over the field numbers \<open>j = 0, 1, 2, 3\<close>
  and returns the four bytes, or \<open>None\<close> where the Go returns \<^verbatim>\<open>nil\<close>.
\<close>

fun parseIPv4_loop :: "nat list \<Rightarrow> string \<Rightarrow> byte list option" where
  "parseIPv4_loop [] s = (if s = [] then Some [] else None)"
| "parseIPv4_loop (j # js) s =
     (if s = [] then None
      else if j > 0 \<and> hd s \<noteq> CHR ''.'' then None
      else (case dtoi (if j > 0 then tl s else s) of
              (n, rest, ok) \<Rightarrow>
                if \<not> ok then None
                else if n > 0xFF then None
                else (case parseIPv4_loop js rest of
                        None \<Rightarrow> None
                      | Some p \<Rightarrow> Some (of_nat n # p))))"

definition parseIPv4 :: "string \<Rightarrow> IP" where
  "parseIPv4 s =
     (case parseIPv4_loop [0, 1, 2, 3] s of
        Some [a, b, c, d] \<Rightarrow> IPv4 a b c d
      | _ \<Rightarrow> [])"

text \<open>
  \<^verbatim>\<open>func parseIPv6(s string, zoneAllowed bool) (ip IP, zone string)\<close> with
  \<^verbatim>\<open>zoneAllowed = false\<close>, as both callers below have it. The loop state is the
  bytes written so far (\<open>i\<close> is their number), the position of the ellipsis, and the
  rest of the string; \<open>None\<close> is the Go's \<^verbatim>\<open>return nil\<close> inside the loop.
\<close>

function parseIPv6_loop :: "byte list \<Rightarrow> nat option \<Rightarrow> string \<Rightarrow> (byte list \<times> nat option \<times> string) option" where
  "parseIPv6_loop acc ellipsis s =
     (if length acc \<ge> 16 then Some (acc, ellipsis, s)
      else (case xtoi s of
        (n, rest, ok) \<Rightarrow>
          if \<not> ok then None
          else if n > 0xFFFF then None
          else if rest \<noteq> [] \<and> hd rest = CHR ''.'' then
            (if ellipsis = None \<and> length acc \<noteq> 12 then None
             else if length acc + 4 > 16 then None
             else if parseIPv4 s = [] then None
             else Some (acc @ drop 12 (parseIPv4 s), ellipsis, []))
          else
            (let acc1 = acc @ [of_nat (drop_bit 8 n), of_nat n] in
             if rest = [] then Some (acc1, ellipsis, [])
             else if hd rest \<noteq> CHR '':'' then None
             else if length rest = 1 then None
             else if hd (tl rest) = CHR '':'' then
               (if ellipsis \<noteq> None then None
                else if tl (tl rest) = [] then Some (acc1, Some (length acc1), [])
                else parseIPv6_loop acc1 (Some (length acc1)) (tl (tl rest)))
             else parseIPv6_loop acc1 ellipsis (tl rest))))"
  by pat_completeness auto
termination
  by (relation "measure (\<lambda>(acc, ellipsis, s). 16 - length acc)") auto

definition parseIPv6 :: "string \<Rightarrow> IP" where
  "parseIPv6 s0 =
     (let lead = (length s0 \<ge> 2 \<and> s0 ! 0 = CHR '':'' \<and> s0 ! 1 = CHR '':'');
          s = (if lead then drop 2 s0 else s0);
          ellipsis0 = (if lead then Some 0 else None)
      in if lead \<and> s = [] then replicate 16 0
         else (case parseIPv6_loop [] ellipsis0 s of
                 None \<Rightarrow> []
               | Some (acc, ellipsis, rest) \<Rightarrow>
                   if rest \<noteq> [] then []
                   else if length acc < 16 then
                     (case ellipsis of
                        None \<Rightarrow> []
                      | Some e \<Rightarrow> take e acc @ replicate (16 - length acc) 0 @ drop e acc)
                   else if ellipsis \<noteq> None then []
                   else acc))"

text \<open>\<^verbatim>\<open>func ParseIP(s string) IP\<close>: the first dot or colon decides the family.\<close>

fun ParseIP_scan :: "string \<Rightarrow> string \<Rightarrow> IP" where
  "ParseIP_scan s [] = []"
| "ParseIP_scan s (c # cs) =
     (if c = CHR ''.'' then parseIPv4 s
      else if c = CHR '':'' then parseIPv6 s
      else ParseIP_scan s cs)"

definition ParseIP :: "string \<Rightarrow> IP" where
  "ParseIP s = ParseIP_scan s s"

text \<open>
  \<^verbatim>\<open>func ParseCIDR(s string) (IP, *IPNet, error)\<close>: the address as written and the
  network it lies in, or a \<^verbatim>\<open>ParseError\<close>.
\<close>

definition ParseCIDR :: "string \<Rightarrow> go_error + (IP \<times> IPNet)" where
  "ParseCIDR s =
     (if CHR ''/'' \<notin> set s then Inl (ErrorString (''invalid CIDR address: '' @ s))
      else
        (let addr = takeWhile (\<lambda>c. c \<noteq> CHR ''/'') s;
             msk = tl (dropWhile (\<lambda>c. c \<noteq> CHR ''/'') s);
             iplen = (if parseIPv4 addr = [] then 16 else 4);
             ip = (if parseIPv4 addr = [] then parseIPv6 addr else parseIPv4 addr)
         in case dtoi msk of
              (n, rest, ok) \<Rightarrow>
                if ip = [] then Inl (ErrorString (''invalid CIDR address: '' @ s))
                else if \<not> ok then Inl (ErrorString (''invalid CIDR address: '' @ s))
                else if rest \<noteq> [] then Inl (ErrorString (''invalid CIDR address: '' @ s))
                else if n > 8 * iplen then Inl (ErrorString (''invalid CIDR address: '' @ s))
                else Inr (ip, \<lparr>IP = IP_Mask ip (CIDRMask n (8 * iplen)), Mask = CIDRMask n (8 * iplen)\<rparr>)))"

subsection \<open>Package net: printing\<close>

text \<open>\<^verbatim>\<open>uitoa\<close>: an unsigned number in decimal.\<close>

definition hexDigit :: "nat \<Rightarrow> char" where
  "hexDigit d = ''0123456789abcdef'' ! (d mod 16)"

function uitoa :: "nat \<Rightarrow> string" where
  "uitoa n = (if n < 10 then [hexDigit n] else uitoa (n div 10) @ [hexDigit (n mod 10)])"
  by pat_completeness auto
termination
  by (relation "measure id") auto

text \<open>\<^verbatim>\<open>appendHex\<close>: a number in lower-case hexadecimal, no leading zeros.\<close>

function appendHex :: "nat \<Rightarrow> string" where
  "appendHex n = (if n < 16 then [hexDigit n] else appendHex (n div 16) @ [hexDigit (n mod 16)])"
  by pat_completeness auto
termination
  by (relation "measure id") auto

text \<open>\<^verbatim>\<open>hexString\<close>: two hexadecimal digits for every byte.\<close>

definition hexString :: "byte list \<Rightarrow> string" where
  "hexString b = concat (map (\<lambda>x. [hexDigit (unat x div 16), hexDigit (unat x mod 16)]) b)"

text \<open>The 16-bit groups of a 16-byte address.\<close>

fun groups :: "byte list \<Rightarrow> nat list" where
  "groups (a # b # rest) = (unat a * 256 + unat b) # groups rest"
| "groups _ = []"

text \<open>
  The longest run of zero groups that \<^verbatim>\<open>IP.String\<close> replaces by \<open>::\<close>: the first
  of the longest ones, as a start and a length in groups. The Go loop takes a run only
  when it is strictly longer than the one it holds, and skips over a run it has taken.
\<close>

fun longestZeroRun :: "nat list \<Rightarrow> nat \<Rightarrow> nat \<times> nat \<Rightarrow> nat \<times> nat" where
  "longestZeroRun [] i best = best"
| "longestZeroRun (g # gs) i best =
     (let r = length (takeWhile (\<lambda>x. x = 0) (g # gs)) in
      longestZeroRun gs (i + 1) (if r > snd best then (i, r) else best))"

definition joinColon :: "nat list \<Rightarrow> string" where
  "joinColon gs = concat (map (\<lambda>(k, g). (if k > 0 then '':'' else []) @ appendHex g) (zip [0 ..< length gs] gs))"

text \<open>\<^verbatim>\<open>func (ip IP) String() string\<close>\<close>

definition IP_String :: "IP \<Rightarrow> string" where
  "IP_String ip =
     (if length ip = 0 then ''<nil>''
      else if length (To4 ip) = 4 then
        uitoa (unat (To4 ip ! 0)) @ ''.'' @ uitoa (unat (To4 ip ! 1)) @ ''.'' @
        uitoa (unat (To4 ip ! 2)) @ ''.'' @ uitoa (unat (To4 ip ! 3))
      else if length ip \<noteq> 16 then ''?''
      else
        (case longestZeroRun (groups ip) 0 (0, 0) of
           (e0, r) \<Rightarrow>
             if r \<le> 1 then joinColon (groups ip)
             else joinColon (take e0 (groups ip)) @ ''::'' @ joinColon (drop (e0 + r) (groups ip))))"

text \<open>\<^verbatim>\<open>func (m IPMask) String() string\<close>\<close>

definition IPMask_String :: "IPMask \<Rightarrow> string" where
  "IPMask_String m = (if length m = 0 then ''<nil>'' else hexString m)"

text \<open>
  \<^verbatim>\<open>func simpleMaskLength(mask IPMask) int\<close>: the number of leading one bits of a
  mask that is ones followed by zeros, and \<open>None\<close> for the Go's \<open>-1\<close>. The inner loop
  shifts the first byte that is not \<open>0xff\<close> to the left while its top bit is set;
  eight rounds empty a byte.
\<close>

fun leadingOnes :: "nat \<Rightarrow> byte \<Rightarrow> nat \<times> byte" where
  "leadingOnes 0 v = (0, v)"
| "leadingOnes (Suc k) v =
     (if v AND 0x80 \<noteq> 0
      then (case leadingOnes k (push_bit 1 v) of (n, v1) \<Rightarrow> (n + 1, v1))
      else (0, v))"

fun simpleMaskLength :: "IPMask \<Rightarrow> nat option" where
  "simpleMaskLength [] = Some 0"
| "simpleMaskLength (v # rest) =
     (if v = 0xff then map_option (\<lambda>n. n + 8) (simpleMaskLength rest)
      else (case leadingOnes 8 v of
              (n, v1) \<Rightarrow>
                if v1 \<noteq> 0 then None
                else if list_all (\<lambda>b. b = 0) rest then Some n
                else None))"

text \<open>\<^verbatim>\<open>func (n *IPNet) String() string\<close>: the normalized CIDR text of a network.\<close>

definition IPNet_String :: "IPNet \<Rightarrow> string" where
  "IPNet_String n =
     (case networkNumberAndMask n of
        (nn, m) \<Rightarrow>
          if nn = [] \<or> m = [] then ''<nil>''
          else (case simpleMaskLength m of
                  None \<Rightarrow> IP_String nn @ ''/'' @ IPMask_String m
                | Some l \<Rightarrow> IP_String nn @ ''/'' @ uitoa l))"

subsection \<open>Package net: hardware addresses\<close>

text \<open>\<^verbatim>\<open>func xtoi2(s string, e byte) (byte, bool)\<close>; \<open>e = None\<close> is the Go's \<open>e = 0\<close>
  for a two-character string, where the terminator is not looked at.\<close>

definition xtoi2 :: "string \<Rightarrow> char option \<Rightarrow> byte option" where
  "xtoi2 s e =
     (if length s > 2 \<and> Some (s ! 2) \<noteq> e then None
      else (case xtoi (take 2 s) of
              (n, rest, ok) \<Rightarrow> if ok \<and> rest = [] \<and> length s \<ge> 2 then Some (of_nat n) else None))"

text \<open>All the bytes, or nothing when one of them failed.\<close>

fun allBytes :: "byte option list \<Rightarrow> byte list option" where
  "allBytes [] = Some []"
| "allBytes (None # xs) = None"
| "allBytes (Some b # xs) = map_option ((#) b) (allBytes xs)"

text \<open>
  \<^verbatim>\<open>func ParseMAC(s string) (hw HardwareAddr, err error)\<close>: 6, 8 or 20 bytes written
  as \<open>01:23:45:67:89:ab\<close>, \<open>01-23-45-67-89-ab\<close> or \<open>0123.4567.89ab\<close>; anything
  else is an \<^verbatim>\<open>AddrError\<close>.
\<close>

definition ParseMAC :: "string \<Rightarrow> go_error + HardwareAddr" where
  "ParseMAC s =
     (let bad = Inl (ErrorString (''address '' @ s @ '': invalid MAC address'')) in
      if length s < 14 then bad
      else if s ! 2 = CHR '':'' \<or> s ! 2 = CHR ''-'' then
        (if (length s + 1) mod 3 \<noteq> 0 then bad
         else (let n = (length s + 1) div 3 in
               if n \<noteq> 6 \<and> n \<noteq> 8 \<and> n \<noteq> 20 then bad
               else (case allBytes (map (\<lambda>i. xtoi2 (drop (3 * i) s) (Some (s ! 2))) [0 ..< n]) of
                       None \<Rightarrow> bad
                     | Some hw \<Rightarrow> Inr hw)))
      else if s ! 4 = CHR ''.'' then
        (if (length s + 1) mod 5 \<noteq> 0 then bad
         else (let n = 2 * (length s + 1) div 5 in
               if n \<noteq> 6 \<and> n \<noteq> 8 \<and> n \<noteq> 20 then bad
               else (case allBytes (concat (map (\<lambda>i. [xtoi2 (take 2 (drop (5 * i) s)) None,
                                                        xtoi2 (drop (5 * i + 2) s) (Some (s ! 4))])
                                           [0 ..< n div 2])) of
                       None \<Rightarrow> bad
                     | Some hw \<Rightarrow> Inr hw)))
      else bad)"

section \<open>The kernel interface\<close>

text \<open>
  \<^verbatim>\<open>netlink.LinkAttrs\<close>, with the fields the file sets or reads, and the link kinds
  behind the interface \<^verbatim>\<open>netlink.Link\<close>. A \<^verbatim>\<open>*netlink.Bridge\<close> is its
  \<open>LinkAttrs\<close>; the type assertion \<^verbatim>\<open>l.(*netlink.Bridge)\<close> is a match on the
  constructor \<open>Bridge\<close>. The index that the library writes back into a link it was
  handed is not modelled: the file never reads it.
\<close>

record LinkAttrs =
  Index :: int
  MTU :: int
  TxQLen :: int
  Name :: string

datatype Link = Bridge LinkAttrs | Veth LinkAttrs | Device LinkAttrs

fun Attrs :: "Link \<Rightarrow> LinkAttrs" where
  "Attrs (Bridge a) = a"
| "Attrs (Veth a) = a"
| "Attrs (Device a) = a"

text \<open>\<^verbatim>\<open>netlink.Addr\<close>; its \<^verbatim>\<open>*net.IPNet\<close> is never \<^verbatim>\<open>nil\<close>.\<close>

record Addr =
  IPNet :: IPNet
  Label :: string

text \<open>A handle on a network namespace (\<^verbatim>\<open>ns.NetNS\<close>), known by its path.\<close>

type_synonym NetNS = string

definition AF_INET :: int where
  "AF_INET = 2"

text \<open>
  What the file asks of the kernel, as functions of the state \<open>'w\<close> of everything
  outside the program. Every call may fail and every call returns the state after it.
  \<^item> \<open>LinkByName\<close> to \<open>AddrAdd\<close>: the functions of package netlink of these names;
  \<^item> \<open>SetupVeth\<close>, \<open>AddRoute\<close>: \<^verbatim>\<open>ip.SetupVeth\<close> and \<^verbatim>\<open>ip.AddRoute\<close> of the CNI
    package \<^verbatim>\<open>pkg/ip\<close>; \<open>SetupVeth\<close> returns the host end and the container end;
  \<^item> \<open>GetNS\<close>: \<^verbatim>\<open>ns.GetNS\<close>, opening a namespace by its path;
  \<^item> \<open>ns_enter\<close>: what \<^verbatim>\<open>NetNS.Do\<close> does before it runs its argument (keep a handle
    on the current namespace, switch to the target), returning the handle kept;
  \<^item> \<open>ns_leave\<close>: what it does afterwards (switch back), on every path.
\<close>

record 'w netlink =
  LinkByName :: "'w \<Rightarrow> string \<Rightarrow> (go_error + Link) \<times> 'w"
  LinkAdd :: "'w \<Rightarrow> Link \<Rightarrow> go_error option \<times> 'w"
  LinkSetUp :: "'w \<Rightarrow> Link \<Rightarrow> go_error option \<times> 'w"
  LinkSetMaster :: "'w \<Rightarrow> Link \<Rightarrow> LinkAttrs \<Rightarrow> go_error option \<times> 'w"
  LinkSetHairpin :: "'w \<Rightarrow> Link \<Rightarrow> bool \<Rightarrow> go_error option \<times> 'w"
  LinkSetHardwareAddr :: "'w \<Rightarrow> Link \<Rightarrow> HardwareAddr \<Rightarrow> go_error option \<times> 'w"
  AddrList :: "'w \<Rightarrow> Link \<Rightarrow> int \<Rightarrow> (Addr list \<times> go_error option) \<times> 'w"
  AddrAdd :: "'w \<Rightarrow> Link \<Rightarrow> Addr \<Rightarrow> go_error option \<times> 'w"
  SetupVeth :: "'w \<Rightarrow> string \<Rightarrow> int \<Rightarrow> NetNS \<Rightarrow> (go_error + Link \<times> Link) \<times> 'w"
  AddRoute :: "'w \<Rightarrow> IPNet \<Rightarrow> IP \<Rightarrow> Link \<Rightarrow> go_error option \<times> 'w"
  GetNS :: "'w \<Rightarrow> string \<Rightarrow> (go_error + NetNS) \<times> 'w"
  ns_enter :: "'w \<Rightarrow> NetNS \<Rightarrow> (go_error + NetNS) \<times> 'w"
  ns_leave :: "'w \<Rightarrow> NetNS \<Rightarrow> 'w"

section \<open>The functions of utils.go\<close>

text \<open>
  The errors the file returns: one constructor for every \<^verbatim>\<open>fmt.Errorf\<close> of the file,
  holding what the message is formatted from; \<open>Lib\<close> for a library error returned as it
  came; and the two run-time panics the file can raise.
\<close>

datatype error =
    Lib go_error
  | CouldNotListAddrs go_error
  | AddressConflict string IPNet
  | CouldNotAddAddr string go_error
  | CouldNotLookup string go_error
  | NotABridge string
  | CouldNotAddLink string go_error
  | FailedLookup string go_error
  | FailedConnect string string go_error
  | FailedHairpin string go_error
  | SubnetNotSpecified
  | InvalidSubnet go_error
  | InvalidBridgeIP
  | BridgeIPNotInSubnet
  | FailedCalcBridgeIP error
  | CouldNotGetAddrs go_error
  | FailedAddAddr string go_error
  | FailedCreateBridge string error
  | FailedSetUp string go_error
  | FailedAddRoute IPNet IP string go_error
  | FailedParseMAC go_error
  | FailedSetHw go_error
  | PanicIndexOutOfRange
  | PanicNilDereference

fun is_panic :: "error \<Rightarrow> bool" where
  "is_panic PanicIndexOutOfRange = True"
| "is_panic PanicNilDereference = True"
| "is_panic _ = False"

text \<open>The records the file receives: the fields of them that it reads.\<close>

record NetConf =
  BrName :: string
  BrSubnet :: string
  BrIP :: string
  ConfMTU :: int

record CmdArgs =
  Netns :: string
  IfName :: string

record Route =
  Dst :: IPNet
  GW :: IP

record IPConfig =
  IPConfig_IP :: IPNet
  Gateway :: IP
  Routes :: "Route list"

record Result =
  IP4 :: "IPConfig option"

subsection \<open>Package ns of CNI\<close>

text \<open>
  \<^verbatim>\<open>func (ns *netNS) Do(toRun func(NetNS) error) error\<close>. The function it runs
  writes to variables of the caller; their values go in as \<open>v\<close> and come out beside the
  error. When the switch fails \<open>toRun\<close> is not run.
\<close>

definition Do ::
  "'w netlink \<Rightarrow> 'w \<Rightarrow> NetNS \<Rightarrow> 'v \<Rightarrow> (NetNS \<Rightarrow> 'v \<Rightarrow> 'w \<Rightarrow> (error option \<times> 'v) \<times> 'w) \<Rightarrow> (error option \<times> 'v) \<times> 'w" where
  "Do ops w netns v toRun =
     (case ns_enter ops w netns of
        (Inl e, w1) \<Rightarrow> ((Some (Lib e), v), w1)
      | (Inr hostNS, w1) \<Rightarrow>
          (case toRun hostNS v w1 of
             (r, w2) \<Rightarrow> (r, ns_leave ops w2 hostNS)))"

text \<open>\<^verbatim>\<open>func WithNetNSPath(nspath string, toRun func(NetNS) error) error\<close>\<close>

definition WithNetNSPath ::
  "'w netlink \<Rightarrow> 'w \<Rightarrow> string \<Rightarrow> 'v \<Rightarrow> (NetNS \<Rightarrow> 'v \<Rightarrow> 'w \<Rightarrow> (error option \<times> 'v) \<times> 'w) \<Rightarrow> (error option \<times> 'v) \<times> 'w" where
  "WithNetNSPath ops w nspath v toRun =
     (case GetNS ops w nspath of
        (Inl e, w1) \<Rightarrow> ((Some (Lib e), v), w1)
      | (Inr netns, w1) \<Rightarrow> Do ops w1 netns v toRun)"

subsection \<open>Package ip of CNI\<close>

text \<open>
  \<^verbatim>\<open>func NextIP(ip net.IP) net.IP\<close>: the address as a big-endian number, plus one,
  as the bytes of that number (\<^verbatim>\<open>big.Int.Bytes\<close>, which has no leading zero bytes).
\<close>

definition To16 :: "IP \<Rightarrow> IP" where
  "To16 ip =
     (if length ip = 4 then IPv4 (ip ! 0) (ip ! 1) (ip ! 2) (ip ! 3)
      else if length ip = 16 then ip
      else [])"

definition ipToInt :: "IP \<Rightarrow> nat" where
  "ipToInt ip = foldl (\<lambda>a b. a * 256 + unat b) 0 (if To4 ip \<noteq> [] then To4 ip else To16 ip)"

function intToIP :: "nat \<Rightarrow> IP" where
  "intToIP i = (if i = 0 then [] else intToIP (i div 256) @ [of_nat (i mod 256)])"
  by pat_completeness auto
termination
  by (relation "measure id") auto

definition NextIP :: "IP \<Rightarrow> IP" where
  "NextIP ip = intToIP (ipToInt ip + 1)"

subsection \<open>The bridge\<close>

definition ensureBridgeAddr :: "'w netlink \<Rightarrow> 'w \<Rightarrow> LinkAttrs \<Rightarrow> IPNet \<Rightarrow> error option \<times> 'w" where
  "ensureBridgeAddr ops w br ipn =
     (case AddrList ops w (Bridge br) AF_INET of
        ((addrs, err), w1) \<Rightarrow>
          (case (if err = Some ENOENT then None else err) of
             Some e \<Rightarrow> (Some (CouldNotListAddrs e), w1)
           | None \<Rightarrow>
               if length addrs > 0 then
                 (if list_ex (\<lambda>a. IPNet_String (IPNet a) = IPNet_String ipn) addrs
                  then (None, w1)
                  else (Some (AddressConflict (Name br) ipn), w1))
               else
                 (case AddrAdd ops w1 (Bridge br) \<lparr>IPNet = ipn, Label = ''''\<rparr> of
                    (Some e, w2) \<Rightarrow> (Some (CouldNotAddAddr (Name br) e), w2)
                  | (None, w2) \<Rightarrow> (None, w2))))"

definition bridgeByName :: "'w netlink \<Rightarrow> 'w \<Rightarrow> string \<Rightarrow> (error + LinkAttrs) \<times> 'w" where
  "bridgeByName ops w name =
     (case LinkByName ops w name of
        (Inl e, w1) \<Rightarrow> (Inl (CouldNotLookup name e), w1)
      | (Inr l, w1) \<Rightarrow>
          (case l of
             Bridge br \<Rightarrow> (Inr br, w1)
           | _ \<Rightarrow> (Inl (NotABridge name), w1)))"

definition ensureBridge :: "'w netlink \<Rightarrow> 'w \<Rightarrow> string \<Rightarrow> int \<Rightarrow> (error + LinkAttrs) \<times> 'w" where
  "ensureBridge ops w brName mtu =
     (let br = \<lparr>Index = 0, MTU = mtu, TxQLen = - 1, Name = brName\<rparr> in
      case LinkAdd ops w (Bridge br) of
        (addErr, w1) \<Rightarrow>
          (case (case addErr of
                   None \<Rightarrow> (Inr br, w1)
                 | Some e \<Rightarrow>
                     if e \<noteq> EEXIST then (Inl (CouldNotAddLink brName e), w1)
                     else bridgeByName ops w1 brName) of
             (Inl err, w2) \<Rightarrow> (Inl err, w2)
           | (Inr br1, w2) \<Rightarrow>
               (case LinkSetUp ops w2 (Bridge br1) of
                  (Some e, w3) \<Rightarrow> (Inl (Lib e), w3)
                | (None, w3) \<Rightarrow> (Inr br1, w3))))"

subsection \<open>The veth pair\<close>

text \<open>
  The function handed to \<^verbatim>\<open>netns.Do\<close> writes \<^verbatim>\<open>hostVethName\<close>, the one variable
  it shares with \<^verbatim>\<open>setupVeth\<close>; the container end it gets back is dropped.
\<close>

definition setupVeth ::
  "'w netlink \<Rightarrow> 'w \<Rightarrow> NetNS \<Rightarrow> LinkAttrs \<Rightarrow> string \<Rightarrow> int \<Rightarrow> bool \<Rightarrow> error option \<times> 'w" where
  "setupVeth ops w netns br ifName mtu hairpinMode =
     (case Do ops w netns ''''
             (\<lambda>hostNS hostVethName w0.
                case SetupVeth ops w0 ifName mtu hostNS of
                  (Inl e, w1) \<Rightarrow> ((Some (Lib e), hostVethName), w1)
                | (Inr (hostVeth, contVeth), w1) \<Rightarrow> ((None, Name (Attrs hostVeth)), w1)) of
        ((Some err, hostVethName), w1) \<Rightarrow> (Some err, w1)
      | ((None, hostVethName), w1) \<Rightarrow>
          (case LinkByName ops w1 hostVethName of
             (Inl e, w2) \<Rightarrow> (Some (FailedLookup hostVethName e), w2)
           | (Inr hostVeth, w2) \<Rightarrow>
               (case LinkSetMaster ops w2 hostVeth br of
                  (Some e, w3) \<Rightarrow> (Some (FailedConnect hostVethName (Name br) e), w3)
                | (None, w3) \<Rightarrow>
                    (case LinkSetHairpin ops w3 hostVeth hairpinMode of
                       (Some e, w4) \<Rightarrow> (Some (FailedHairpin hostVethName e), w4)
                     | (None, w4) \<Rightarrow> (None, w4)))))"

subsection \<open>The address of the bridge\<close>

definition calcGatewayIP :: "IPNet \<Rightarrow> IP" where
  "calcGatewayIP ipn = NextIP (IP_Mask (IP ipn) (Mask ipn))"

text \<open>
  \<^verbatim>\<open>brNetworkIPTo4[3]+1\<close> is an addition of bytes: it wraps. Indexing the
  \<^verbatim>\<open>nil\<close> slice that \<^verbatim>\<open>To4\<close> returns for an address that is not IPv4 panics.
\<close>

definition calculateBridgeIP :: "NetConf \<Rightarrow> error + IPNet" where
  "calculateBridgeIP n =
     (if BrSubnet n = '''' then Inl SubnetNotSpecified
      else
        (case ParseCIDR (BrSubnet n) of
           Inl err \<Rightarrow> Inl (InvalidSubnet err)
         | Inr (ip0, brNetworkIPNet) \<Rightarrow>
             if BrIP n \<noteq> '''' then
               (case (if ParseIP (BrIP n) = []
                      then (case ParseCIDR (BrIP n) of
                              Inl err \<Rightarrow> Inl InvalidBridgeIP
                            | Inr (ip1, ipnet1) \<Rightarrow> Inr ip1)
                      else Inr (ParseIP (BrIP n))) of
                  Inl err \<Rightarrow> Inl err
                | Inr ip \<Rightarrow>
                    if \<not> Contains brNetworkIPNet ip then Inl BridgeIPNotInSubnet
                    else Inr \<lparr>IP = ip, Mask = Mask brNetworkIPNet\<rparr>)
             else
               (let brNetworkIPTo4 = To4 (IP brNetworkIPNet) in
                if length brNetworkIPTo4 < 4 then Inl PanicIndexOutOfRange
                else Inr \<lparr>IP = IPv4 (brNetworkIPTo4 ! 0) (brNetworkIPTo4 ! 1) (brNetworkIPTo4 ! 2)
                                     (brNetworkIPTo4 ! 3 + 1),
                          Mask = Mask brNetworkIPNet\<rparr>)))"

text \<open>A panic in \<^verbatim>\<open>calculateBridgeIP\<close> unwinds through \<^verbatim>\<open>setBridgeIP\<close> as it is.\<close>

definition setBridgeIP :: "'w netlink \<Rightarrow> 'w \<Rightarrow> NetConf \<Rightarrow> error option \<times> 'w" where
  "setBridgeIP ops w n =
     (if BrSubnet n = '''' then (Some SubnetNotSpecified, w)
      else
        (case LinkByName ops w (BrName n) of
           (Inl e, w1) \<Rightarrow> (Some (FailedLookup (BrName n) e), w1)
         | (Inr link, w1) \<Rightarrow>
             (case calculateBridgeIP n of
                Inl err \<Rightarrow> (Some (if is_panic err then err else FailedCalcBridgeIP err), w1)
              | Inr bridgeIPNet \<Rightarrow>
                  (case AddrList ops w1 link AF_INET of
                     ((addrs, err), w2) \<Rightarrow>
                       (case (if err = Some ENOENT then None else err) of
                          Some e \<Rightarrow> (Some (CouldNotGetAddrs e), w2)
                        | None \<Rightarrow>
                            if length addrs > 0 \<and>
                               list_ex (\<lambda>a. IPNet_String (IPNet a) = IPNet_String bridgeIPNet) addrs
                            then (None, w2)
                            else
                              (case AddrAdd ops w2 link \<lparr>IPNet = bridgeIPNet, Label = ''''\<rparr> of
                                 (Some e, w3) \<Rightarrow> (Some (FailedAddAddr (BrName n) e), w3)
                               | (None, w3) \<Rightarrow> (None, w3)))))))"

definition setupBridge :: "'w netlink \<Rightarrow> 'w \<Rightarrow> NetConf \<Rightarrow> (error + LinkAttrs) \<times> 'w" where
  "setupBridge ops w n =
     (case ensureBridge ops w (BrName n) (ConfMTU n) of
        (Inl err, w1) \<Rightarrow> (Inl (FailedCreateBridge (BrName n) err), w1)
      | (Inr br, w1) \<Rightarrow> (Inr br, w1))"

subsection \<open>The interface of the container\<close>

text \<open>The loop over \<^verbatim>\<open>res.IP4.Routes\<close> of \<^verbatim>\<open>configureInterface\<close>.\<close>

fun configureInterface_routes ::
  "'w netlink \<Rightarrow> 'w \<Rightarrow> string \<Rightarrow> IP \<Rightarrow> Link \<Rightarrow> Route list \<Rightarrow> error option \<times> 'w" where
  "configureInterface_routes ops w ifName gateway link [] = (None, w)"
| "configureInterface_routes ops w ifName gateway link (r # rs) =
     (let gw = (if GW r = [] then gateway else GW r) in
      case AddRoute ops w (Dst r) gw link of
        (Some e, w1) \<Rightarrow>
          if \<not> os_IsExist e then (Some (FailedAddRoute (Dst r) gw ifName e), w1)
          else configureInterface_routes ops w1 ifName gateway link rs
      | (None, w1) \<Rightarrow> configureInterface_routes ops w1 ifName gateway link rs)"

text \<open>\<^verbatim>\<open>&res.IP4.IP\<close> panics when the result has no IPv4 part.\<close>

definition configureInterface :: "'w netlink \<Rightarrow> 'w \<Rightarrow> string \<Rightarrow> Result \<Rightarrow> error option \<times> 'w" where
  "configureInterface ops w ifName res =
     (case LinkByName ops w ifName of
        (Inl e, w1) \<Rightarrow> (Some (FailedLookup ifName e), w1)
      | (Inr link, w1) \<Rightarrow>
          (case LinkSetUp ops w1 link of
             (Some e, w2) \<Rightarrow> (Some (FailedSetUp ifName e), w2)
           | (None, w2) \<Rightarrow>
               (case IP4 res of
                  None \<Rightarrow> (Some PanicNilDereference, w2)
                | Some ip4 \<Rightarrow>
                    (case AddrAdd ops w2 link \<lparr>IPNet = IPConfig_IP ip4, Label = ''''\<rparr> of
                       (Some e, w3) \<Rightarrow>
                         if Error_is_file_exists e
                         then configureInterface_routes ops w3 ifName (Gateway ip4) link (Routes ip4)
                         else (Some (FailedAddAddr ifName e), w3)
                     | (None, w3) \<Rightarrow>
                         configureInterface_routes ops w3 ifName (Gateway ip4) link (Routes ip4)))))"

definition checkIfContainerInterfaceExists :: "'w netlink \<Rightarrow> 'w \<Rightarrow> CmdArgs \<Rightarrow> bool \<times> 'w" where
  "checkIfContainerInterfaceExists ops w args =
     (case WithNetNSPath ops w (Netns args) ()
             (\<lambda>hostNS u w0.
                case LinkByName ops w0 (IfName args) of
                  (Inl e, w1) \<Rightarrow> ((Some (FailedLookup (IfName args) e), u), w1)
                | (Inr l, w1) \<Rightarrow> ((None, u), w1)) of
        ((err, u), w1) \<Rightarrow> (if err = None then (True, w1) else (False, w1)))"

definition setInterfaceMacAddress :: "'w netlink \<Rightarrow> 'w \<Rightarrow> string \<Rightarrow> string \<Rightarrow> error option \<times> 'w" where
  "setInterfaceMacAddress ops w ifName mac =
     (case LinkByName ops w ifName of
        (Inl e, w1) \<Rightarrow> (Some (FailedLookup ifName e), w1)
      | (Inr link, w1) \<Rightarrow>
          (case ParseMAC mac of
             Inl e \<Rightarrow> (Some (FailedParseMAC e), w1)
           | Inr hwaddr \<Rightarrow>
               (case LinkSetHardwareAddr ops w1 link hwaddr of
                  (Some e, w2) \<Rightarrow> (Some (FailedSetHw e), w2)
                | (None, w2) \<Rightarrow> (None, w2))))"

section \<open>Observing the calls\<close>

text \<open>
  An entry of the transcript of a run: a call to the kernel interface with its
  arguments and what came back.
\<close>

datatype event =
    E_LinkByName string "go_error + Link"
  | E_LinkAdd Link "go_error option"
  | E_LinkSetUp Link "go_error option"
  | E_LinkSetMaster Link LinkAttrs "go_error option"
  | E_LinkSetHairpin Link bool "go_error option"
  | E_LinkSetHardwareAddr Link HardwareAddr "go_error option"
  | E_AddrList Link int "Addr list \<times> go_error option"
  | E_AddrAdd Link Addr "go_error option"
  | E_SetupVeth string int NetNS "go_error + Link \<times> Link"
  | E_AddRoute IPNet IP Link "go_error option"
  | E_GetNS string "go_error + NetNS"
  | E_ns_enter NetNS "go_error + NetNS"
  | E_ns_leave NetNS

text \<open>
  \<open>logged ops\<close> answers every call as \<open>ops\<close> does and appends the call to a
  transcript kept beside the state. A run of a function of the file against
  \<open>logged ops\<close>, started with the empty transcript, ends with the list of the calls
  the function made, in the order it made them.
\<close>

definition logged :: "'w netlink \<Rightarrow> ('w \<times> event list) netlink" where
  "logged ops =
     \<lparr>LinkByName = (\<lambda>(w, t) name.
        case LinkByName ops w name of (r, w1) \<Rightarrow> (r, (w1, t @ [E_LinkByName name r]))),
      LinkAdd = (\<lambda>(w, t) l.
        case LinkAdd ops w l of (r, w1) \<Rightarrow> (r, (w1, t @ [E_LinkAdd l r]))),
      LinkSetUp = (\<lambda>(w, t) l.
        case LinkSetUp ops w l of (r, w1) \<Rightarrow> (r, (w1, t @ [E_LinkSetUp l r]))),
      LinkSetMaster = (\<lambda>(w, t) l br.
        case LinkSetMaster ops w l br of (r, w1) \<Rightarrow> (r, (w1, t @ [E_LinkSetMaster l br r]))),
      LinkSetHairpin = (\<lambda>(w, t) l b.
        case LinkSetHairpin ops w l b of (r, w1) \<Rightarrow> (r, (w1, t @ [E_LinkSetHairpin l b r]))),
      LinkSetHardwareAddr = (\<lambda>(w, t) l hw.
        case LinkSetHardwareAddr ops w l hw of (r, w1) \<Rightarrow> (r, (w1, t @ [E_LinkSetHardwareAddr l hw r]))),
      AddrList = (\<lambda>(w, t) l fam.
        case AddrList ops w l fam of (r, w1) \<Rightarrow> (r, (w1, t @ [E_AddrList l fam r]))),
      AddrAdd = (\<lambda>(w, t) l a.
        case AddrAdd ops w l a of (r, w1) \<Rightarrow> (r, (w1, t @ [E_AddrAdd l a r]))),
      SetupVeth = (\<lambda>(w, t) ifName mtu hostNS.
        case SetupVeth ops w ifName mtu hostNS of
          (r, w1) \<Rightarrow> (r, (w1, t @ [E_SetupVeth ifName mtu hostNS r]))),
      AddRoute = (\<lambda>(w, t) dst gw l.
        case AddRoute ops w dst gw l of (r, w1) \<Rightarrow> (r, (w1, t @ [E_AddRoute dst gw l r]))),
      GetNS = (\<lambda>(w, t) path.
        case GetNS ops w path of (r, w1) \<Rightarrow> (r, (w1, t @ [E_GetNS path r]))),
      ns_enter = (\<lambda>(w, t) netns.
        case ns_enter ops w netns of (r, w1) \<Rightarrow> (r, (w1, t @ [E_ns_enter netns r]))),
      ns_leave = (\<lambda>(w, t) hostNS. (ns_leave ops w hostNS, t @ [E_ns_leave hostNS]))\<rparr>"

text \<open>The result and the transcript of a run against \<open>logged ops\<close>.\<close>

definition result_of :: "'r \<times> ('w \<times> event list) \<Rightarrow> 'r" where
  "result_of run = fst run"

definition transcript :: "'r \<times> ('w \<times> event list) \<Rightarrow> event list" where
  "transcript run = snd (snd run)"

definition outcome :: "'r \<times> ('w \<times> event list) \<Rightarrow> 'r \<times> event list" where
  "outcome run = (fst run, snd (snd run))"

section \<open>A kernel to run against\<close>

text \<open>
  A small model of the part of the kernel the file talks to: devices with their
  addresses and routes, each in a namespace, and the namespace the calling thread is
  in. It refuses what Linux refuses in the same situations (a second device of a name,
  a second copy of an address or route, a handle whose index names no device) and
  nothing else. It is the kernel the examples run against, and the one in which the
  effect of two calls in a row is worked out.
\<close>

record device =
  dev_link :: Link
  dev_ns :: NetNS
  dev_up :: bool
  dev_addrs :: "Addr list"
  dev_master :: int
  dev_hairpin :: bool
  dev_hwaddr :: HardwareAddr
  dev_routes :: "(IPNet \<times> IP) list"

record kstate =
  devices :: "device list"
  current_ns :: NetNS
  namespaces :: "NetNS list"
  next_index :: int

definition dev_name :: "device \<Rightarrow> string" where
  "dev_name d = Name (Attrs (dev_link d))"

text \<open>The device of a name in the current namespace.\<close>

definition find_name :: "kstate \<Rightarrow> string \<Rightarrow> device option" where
  "find_name k name = find (\<lambda>d. dev_ns d = current_ns k \<and> dev_name d = name) (devices k)"

text \<open>
  The device a handle stands for: netlink goes by the index of the handle, and by its
  name when the index is 0.
\<close>

definition find_link :: "kstate \<Rightarrow> Link \<Rightarrow> device option" where
  "find_link k l =
     (if Index (Attrs l) = 0 then find_name k (Name (Attrs l))
      else find (\<lambda>d. dev_ns d = current_ns k \<and> Index (Attrs (dev_link d)) = Index (Attrs l)) (devices k))"

definition update_dev :: "kstate \<Rightarrow> device \<Rightarrow> (device \<Rightarrow> device) \<Rightarrow> kstate" where
  "update_dev k d f = k\<lparr>devices := map (\<lambda>x. if x = d then f x else x) (devices k)\<rparr>"

definition new_device :: "Link \<Rightarrow> NetNS \<Rightarrow> device" where
  "new_device l netns =
     \<lparr>dev_link = l, dev_ns = netns, dev_up = False, dev_addrs = [], dev_master = 0,
      dev_hairpin = False, dev_hwaddr = [], dev_routes = []\<rparr>"

fun with_index :: "Link \<Rightarrow> int \<Rightarrow> Link" where
  "with_index (Bridge a) i = Bridge (a\<lparr>Index := i\<rparr>)"
| "with_index (Veth a) i = Veth (a\<lparr>Index := i\<rparr>)"
| "with_index (Device a) i = Device (a\<lparr>Index := i\<rparr>)"

definition k_LinkByName :: "kstate \<Rightarrow> string \<Rightarrow> (go_error + Link) \<times> kstate" where
  "k_LinkByName k name =
     (case find_name k name of
        None \<Rightarrow> (Inl (ErrorString ''Link not found''), k)
      | Some d \<Rightarrow> (Inr (dev_link d), k))"

definition k_LinkAdd :: "kstate \<Rightarrow> Link \<Rightarrow> go_error option \<times> kstate" where
  "k_LinkAdd k l =
     (case find_name k (Name (Attrs l)) of
        Some d \<Rightarrow> (Some EEXIST, k)
      | None \<Rightarrow>
          (None, k\<lparr>devices := devices k @ [new_device (with_index l (next_index k)) (current_ns k)],
                   next_index := next_index k + 1\<rparr>))"

definition k_update :: "kstate \<Rightarrow> Link \<Rightarrow> (device \<Rightarrow> device) \<Rightarrow> go_error option \<times> kstate" where
  "k_update k l f =
     (case find_link k l of
        None \<Rightarrow> (Some ENODEV, k)
      | Some d \<Rightarrow> (None, update_dev k d f))"

definition k_LinkSetMaster :: "kstate \<Rightarrow> Link \<Rightarrow> LinkAttrs \<Rightarrow> go_error option \<times> kstate" where
  "k_LinkSetMaster k l br =
     (case find_link k (Bridge br) of
        None \<Rightarrow> (Some ENODEV, k)
      | Some b \<Rightarrow> k_update k l (\<lambda>d. d\<lparr>dev_master := Index (Attrs (dev_link b))\<rparr>))"

definition k_AddrList :: "kstate \<Rightarrow> Link \<Rightarrow> int \<Rightarrow> (Addr list \<times> go_error option) \<times> kstate" where
  "k_AddrList k l family =
     (case find_link k l of
        None \<Rightarrow> (([], Some ENODEV), k)
      | Some d \<Rightarrow>
          ((filter (\<lambda>a. if family = AF_INET then To4 (IP (IPNet a)) \<noteq> [] else True)
              (dev_addrs d), None), k))"

definition k_AddrAdd :: "kstate \<Rightarrow> Link \<Rightarrow> Addr \<Rightarrow> go_error option \<times> kstate" where
  "k_AddrAdd k l a =
     (case find_link k l of
        None \<Rightarrow> (Some ENODEV, k)
      | Some d \<Rightarrow>
          if list_ex (\<lambda>x. IPNet_String (IPNet x) = IPNet_String (IPNet a)) (dev_addrs d)
          then (Some EEXIST, k)
          else (None, update_dev k d (\<lambda>x. x\<lparr>dev_addrs := dev_addrs x @ [a]\<rparr>)))"

definition k_AddRoute :: "kstate \<Rightarrow> IPNet \<Rightarrow> IP \<Rightarrow> Link \<Rightarrow> go_error option \<times> kstate" where
  "k_AddRoute k dst gw l =
     (case find_link k l of
        None \<Rightarrow> (Some ENODEV, k)
      | Some d \<Rightarrow>
          if list_ex (\<lambda>(x, g). IPNet_String x = IPNet_String dst) (dev_routes d)
          then (Some EEXIST, k)
          else (None, update_dev k d (\<lambda>x. x\<lparr>dev_routes := dev_routes x @ [(dst, gw)]\<rparr>)))"

text \<open>
  The pair is made in the current namespace and the host end is moved to \<open>hostNS\<close>,
  where it gets a new index: the handle that comes back still carries the old one.
\<close>

definition k_SetupVeth :: "kstate \<Rightarrow> string \<Rightarrow> int \<Rightarrow> NetNS \<Rightarrow> (go_error + Link \<times> Link) \<times> kstate" where
  "k_SetupVeth k ifName mtu hostNS =
     (if find_name k ifName \<noteq> None then (Inl EEXIST, k)
      else
        (let i = next_index k;
             hostName = ''veth'' @ appendHex (nat i);
             cont = Veth \<lparr>Index = i, MTU = mtu, TxQLen = 0, Name = ifName\<rparr>;
             host = Veth \<lparr>Index = i + 1, MTU = mtu, TxQLen = 0, Name = hostName\<rparr>
         in (Inr (host, cont),
             k\<lparr>devices := devices k @ [new_device cont (current_ns k),
                                        new_device (with_index host (i + 2)) hostNS],
               next_index := i + 3\<rparr>)))"

definition k_GetNS :: "kstate \<Rightarrow> string \<Rightarrow> (go_error + NetNS) \<times> kstate" where
  "k_GetNS k path =
     (if path \<in> set (namespaces k) then (Inr path, k)
      else (Inl (ErrorString ''no such file or directory''), k))"

definition k_ns_enter :: "kstate \<Rightarrow> NetNS \<Rightarrow> (go_error + NetNS) \<times> kstate" where
  "k_ns_enter k netns =
     (if netns \<in> set (namespaces k) then (Inr (current_ns k), k\<lparr>current_ns := netns\<rparr>)
      else (Inl (ErrorString ''bad file descriptor''), k))"

definition kernel :: "kstate netlink" where
  "kernel =
     \<lparr>LinkByName = k_LinkByName,
      LinkAdd = k_LinkAdd,
      LinkSetUp = (\<lambda>k l. k_update k l (\<lambda>d. d\<lparr>dev_up := True\<rparr>)),
      LinkSetMaster = k_LinkSetMaster,
      LinkSetHairpin = (\<lambda>k l b. k_update k l (\<lambda>d. d\<lparr>dev_hairpin := b\<rparr>)),
      LinkSetHardwareAddr = (\<lambda>k l hw. k_update k l (\<lambda>d. d\<lparr>dev_hwaddr := hw\<rparr>)),
      AddrList = k_AddrList,
      AddrAdd = k_AddrAdd,
      SetupVeth = k_SetupVeth,
      AddRoute = k_AddRoute,
      GetNS = k_GetNS,
      ns_enter = k_ns_enter,
      ns_leave = (\<lambda>k hostNS. k\<lparr>current_ns := hostNS\<rparr>)\<rparr>"

text \<open>A host with nothing but its own namespace and the namespace of one container.\<close>

definition boot :: kstate where
  "boot = \<lparr>devices = [], current_ns = ''/proc/1/ns/net'',
           namespaces = [''/proc/1/ns/net'', ''/var/run/netns/c1''], next_index = 2\<rparr>"

section \<open>The words of the specification\<close>

text \<open>
  \<open>BrIP\<close> read as a bare address, or else as a CIDR, of which the address is taken:
  the two readings the specification names, in the order the code tries them.
\<close>

definition parseAddrOrCIDR :: "string \<Rightarrow> IP option" where
  "parseAddrOrCIDR s =
     (if ParseIP s \<noteq> [] then Some (ParseIP s)
      else (case ParseCIDR s of Inl e \<Rightarrow> None | Inr (ip, ipnet) \<Rightarrow> Some ip))"

text \<open>The gateway of a route: its own when it has one, else the default of the IPAM result.\<close>

definition route_gw :: "IP \<Rightarrow> Route \<Rightarrow> IP" where
  "route_gw gateway r = (if GW r = [] then gateway else GW r)"

text \<open>
  What installing a route may answer without ending the run: success, or the failure
  that says the route is there already.
\<close>

definition tolerated :: "go_error option \<Rightarrow> bool" where
  "tolerated out = (case out of None \<Rightarrow> True | Some e \<Rightarrow> os_IsExist e)"

text \<open>The call that installs a route on a link, with its answer.\<close>

definition route_event :: "IP \<Rightarrow> Link \<Rightarrow> Route \<times> go_error option \<Rightarrow> event" where
  "route_event gateway link = (\<lambda>(r, out). E_AddRoute (Dst r) (route_gw gateway r) link out)"

fun is_LinkAdd :: "event \<Rightarrow> bool" where
  "is_LinkAdd (E_LinkAdd l r) = True"
| "is_LinkAdd _ = False"

section \<open>The examples\<close>

text \<open>A configuration of the bridge \<open>br0\<close>, and the network \<open>10.0.0.d/24\<close>.\<close>

definition conf :: "string \<Rightarrow> string \<Rightarrow> NetConf" where
  "conf subnet ip = \<lparr>BrName = ''br0'', BrSubnet = subnet, BrIP = ip, ConfMTU = 1500\<rparr>"

definition net24 :: "byte \<Rightarrow> IPNet" where
  "net24 d = \<lparr>IP = IPv4 10 0 0 d, Mask = [255, 255, 255, 0]\<rparr>"

text \<open>
  The device that the kernel of section \<open>A kernel to run against\<close> holds once a bridge
  has been added to the state \<open>k\<close> and brought up.
\<close>

definition fresh_bridge :: "kstate \<Rightarrow> string \<Rightarrow> int \<Rightarrow> device" where
  "fresh_bridge k brName mtu =
     \<lparr>dev_link = Bridge \<lparr>Index = next_index k, MTU = mtu, TxQLen = - 1, Name = brName\<rparr>,
      dev_ns = current_ns k, dev_up = True, dev_addrs = [], dev_master = 0,
      dev_hairpin = False, dev_hwaddr = [], dev_routes = []\<rparr>"

text \<open>The bridge \<open>br0\<close> as the kernel hands it out, and the host that has it.\<close>

definition br0 :: LinkAttrs where
  "br0 = \<lparr>Index = 2, MTU = 1500, TxQLen = - 1, Name = ''br0''\<rparr>"

definition host_with_bridge :: kstate where
  "host_with_bridge = boot\<lparr>devices := [fresh_bridge boot ''br0'' 1500], next_index := 3\<rparr>"

text \<open>The same host once the bridge has the address \<open>10.0.0.1/24\<close>.\<close>

definition host_with_address :: kstate where
  "host_with_address =
     boot\<lparr>devices := [(fresh_bridge boot ''br0'' 1500)\<lparr>dev_addrs := [\<lparr>IPNet = net24 1, Label = ''''\<rparr>]\<rparr>],
          next_index := 3\<rparr>"

text \<open>A host on which the name \<open>br0\<close> is taken by a device that is not a bridge.\<close>

definition host_with_other_br0 :: kstate where
  "host_with_other_br0 =
     boot\<lparr>devices := [new_device (Device \<lparr>Index = 2, MTU = 1500, TxQLen = 1000, Name = ''br0''\<rparr>)
                        ''/proc/1/ns/net''],
          next_index := 3\<rparr>"

text \<open>
  Inside the namespace of the container, where the interface \<open>eth0\<close> is; and what
  the address management handed out for it: an address, a default gateway, and three
  routes of which the third repeats the first.
\<close>

definition eth0 :: Link where
  "eth0 = Veth \<lparr>Index = 3, MTU = 1500, TxQLen = 0, Name = ''eth0''\<rparr>"

definition in_container :: kstate where
  "in_container =
     boot\<lparr>devices := [fresh_bridge boot ''br0'' 1500, new_device eth0 ''/var/run/netns/c1''],
          current_ns := ''/var/run/netns/c1'', next_index := 6\<rparr>"

definition default_route :: Route where
  "default_route = \<lparr>Dst = \<lparr>IP = [0, 0, 0, 0], Mask = [0, 0, 0, 0]\<rparr>, GW = []\<rparr>"

definition other_route :: Route where
  "other_route = \<lparr>Dst = \<lparr>IP = [10, 1, 0, 0], Mask = [255, 255, 0, 0]\<rparr>, GW = [10, 0, 0, 254]\<rparr>"

definition ipam :: Result where
  "ipam = \<lparr>IP4 = Some \<lparr>IPConfig_IP = net24 7, Gateway = [10, 0, 0, 1],
                        Routes = [default_route, other_route, default_route]\<rparr>\<rparr>"

text \<open>A kernel that refuses every change of addresses (\<open>EPERM\<close>), and is \<open>kernel\<close> otherwise.\<close>

definition EPERM :: go_error where
  "EPERM = Errno 1"

definition refusing_kernel :: "kstate netlink" where
  "refusing_kernel = kernel\<lparr>AddrAdd := (\<lambda>k l a. (Some EPERM, k))\<rparr>"

section \<open>Running the model\<close>

text \<open>
  Concrete runs are computed by rewriting with the definitions. The scrutinee of a
  \<open>case\<close> is evaluated before its branches are looked at, as the condition of an
  \<open>if\<close> is.
\<close>

lemmas weak_congs =
  prod.case_cong_weak option.case_cong_weak sum.case_cong_weak list.case_cong_weak

lemmas net_defs =
  ParseCIDR_def ParseIP_def parseIPv4_def parseIPv6_def dtoi_def xtoi_def isDigit_def
  hexVal_def big_def IPv4_def v4InV6Prefix_def CIDRMask_def IP_Mask_def To4_def Let_def
  Contains_def networkNumberAndMask_def

lemmas string_defs =
  IPNet_String_def IP_String_def IPMask_String_def hexString_def hexDigit_def joinColon_def

lemma upt_4: "[0..<4] = [0, 1, 2, 3::nat]"
  by (simp add: upt_rec)

lemma upt_16: "[0..<16] = [0, 1, 2, 3, 4, 5, 6, 7, 8, 9, 10, 11, 12, 13, 14, 15::nat]"
  by (simp add: upt_rec)

lemma replicate_14: "replicate 14 (0::byte) = [0, 0, 0, 0, 0, 0, 0, 0, 0, 0, 0, 0, 0, 0]"
  by (simp add: numeral_eq_Suc)

lemma leadingOnes_8:
  "leadingOnes 8 v = leadingOnes (Suc (Suc (Suc (Suc (Suc (Suc (Suc (Suc 0)))))))) v"
  by (simp add: eval_nat_numeral)

text \<open>The subnets and addresses of the examples, parsed and printed.\<close>

lemma ParseCIDR_10_0_0_0_24:
  "ParseCIDR ''10.0.0.0/24'' =
     Inr (IPv4 10 0 0 0, \<lparr>IP = [10, 0, 0, 0], Mask = [255, 255, 255, 0]\<rparr>)"
  by (simp add: net_defs upt_4 cong: weak_congs)

lemma ParseCIDR_10_0_0_255_32:
  "ParseCIDR ''10.0.0.255/32'' =
     Inr (IPv4 10 0 0 255, \<lparr>IP = [10, 0, 0, 255], Mask = [255, 255, 255, 255]\<rparr>)"
  by (simp add: net_defs upt_4 cong: weak_congs)

lemma ParseCIDR_fd00_64:
  "ParseCIDR ''fd00::/64'' =
     Inr ([0xfd, 0, 0, 0, 0, 0, 0, 0, 0, 0, 0, 0, 0, 0, 0, 0],
          \<lparr>IP = [0xfd, 0, 0, 0, 0, 0, 0, 0, 0, 0, 0, 0, 0, 0, 0, 0],
           Mask = [255, 255, 255, 255, 255, 255, 255, 255, 0, 0, 0, 0, 0, 0, 0, 0]\<rparr>)"
  by (simp add: net_defs upt_16 replicate_14 cong: weak_congs)

lemma ParseCIDR_10_0_0_5_16:
  "ParseCIDR ''10.0.0.5/16'' =
     Inr (IPv4 10 0 0 5, \<lparr>IP = [10, 0, 0, 0], Mask = [255, 255, 0, 0]\<rparr>)"
  by (simp add: net_defs upt_4 cong: weak_congs)

lemma ParseIP_examples:
  "ParseIP ''10.0.0.5'' = IPv4 10 0 0 5"
  "ParseIP ''10.0.0.2'' = IPv4 10 0 0 2"
  "ParseIP ''10.1.0.5'' = IPv4 10 1 0 5"
  "ParseIP ''10.0.0.5/16'' = []"
  by (simp_all add: net_defs cong: weak_congs)

lemma Contains_examples:
  "Contains \<lparr>IP = [10, 0, 0, 0], Mask = [255, 255, 255, 0]\<rparr> (IPv4 10 0 0 5)"
  "Contains \<lparr>IP = [10, 0, 0, 0], Mask = [255, 255, 255, 0]\<rparr> (IPv4 10 0 0 2)"
  "\<not> Contains \<lparr>IP = [10, 0, 0, 0], Mask = [255, 255, 255, 0]\<rparr> (IPv4 10 1 0 5)"
  by (simp_all add: net_defs cong: weak_congs)

lemma IPNet_String_examples:
  "IPNet_String \<lparr>IP = IPv4 10 0 0 1, Mask = [255, 255, 255, 0]\<rparr> = ''10.0.0.1/24''"
  "IPNet_String \<lparr>IP = IPv4 10 0 0 2, Mask = [255, 255, 255, 0]\<rparr> = ''10.0.0.2/24''"
  "IPNet_String \<lparr>IP = IPv4 10 0 0 5, Mask = [255, 255, 255, 0]\<rparr> = ''10.0.0.5/24''"
  "IPNet_String \<lparr>IP = IPv4 10 0 0 0, Mask = [255, 255, 255, 255]\<rparr> = ''10.0.0.0/32''"
  by (simp_all add: net_defs string_defs leadingOnes_8 cong: weak_congs)

lemma net24_simps [simp]:
  "IP (net24 d) = IPv4 10 0 0 d" "Mask (net24 d) = [255, 255, 255, 0]"
  by (simp_all add: net24_def)

lemma To4_IPv4 [simp]: "To4 (IPv4 a b c d) = [a, b, c, d]"
  by (simp add: To4_def IPv4_def v4InV6Prefix_def)

lemma IPNet_String_net24:
  "IPNet_String (net24 1) = ''10.0.0.1/24''"
  "IPNet_String (net24 2) = ''10.0.0.2/24''"
  "IPNet_String (net24 5) = ''10.0.0.5/24''"
  "IPNet_String (net24 7) = ''10.0.0.7/24''"
  by (simp_all add: net_defs string_defs leadingOnes_8 net24_def cong: weak_congs)

lemma IPNet_String_routes:
  "IPNet_String \<lparr>IP = [0, 0, 0, 0], Mask = [0, 0, 0, 0]\<rparr> = ''0.0.0.0/0''"
  "IPNet_String \<lparr>IP = [10, 1, 0, 0], Mask = [255, 255, 0, 0]\<rparr> = ''10.1.0.0/16''"
  by (simp_all add: net_defs string_defs leadingOnes_8 cong: weak_congs)

text \<open>The calls against \<open>logged ops\<close> and against the kernel of the examples.\<close>

lemma logged_simps [simp]:
  "LinkByName (logged ops) (w, t) name =
     (case LinkByName ops w name of (r, w1) \<Rightarrow> (r, (w1, t @ [E_LinkByName name r])))"
  "LinkAdd (logged ops) (w, t) l =
     (case LinkAdd ops w l of (ro, w1) \<Rightarrow> (ro, (w1, t @ [E_LinkAdd l ro])))"
  "LinkSetUp (logged ops) (w, t) l =
     (case LinkSetUp ops w l of (ro, w1) \<Rightarrow> (ro, (w1, t @ [E_LinkSetUp l ro])))"
  "LinkSetMaster (logged ops) (w, t) l br =
     (case LinkSetMaster ops w l br of (ro, w1) \<Rightarrow> (ro, (w1, t @ [E_LinkSetMaster l br ro])))"
  "LinkSetHairpin (logged ops) (w, t) l b =
     (case LinkSetHairpin ops w l b of (ro, w1) \<Rightarrow> (ro, (w1, t @ [E_LinkSetHairpin l b ro])))"
  "LinkSetHardwareAddr (logged ops) (w, t) l hw =
     (case LinkSetHardwareAddr ops w l hw of
        (ro, w1) \<Rightarrow> (ro, (w1, t @ [E_LinkSetHardwareAddr l hw ro])))"
  "AddrList (logged ops) (w, t) l fam =
     (case AddrList ops w l fam of (ra, w1) \<Rightarrow> (ra, (w1, t @ [E_AddrList l fam ra])))"
  "AddrAdd (logged ops) (w, t) l a =
     (case AddrAdd ops w l a of (ro, w1) \<Rightarrow> (ro, (w1, t @ [E_AddrAdd l a ro])))"
  "SetupVeth (logged ops) (w, t) ifName mtu hostNS =
     (case SetupVeth ops w ifName mtu hostNS of
        (rv, w1) \<Rightarrow> (rv, (w1, t @ [E_SetupVeth ifName mtu hostNS rv])))"
  "AddRoute (logged ops) (w, t) dst gw l =
     (case AddRoute ops w dst gw l of (ro, w1) \<Rightarrow> (ro, (w1, t @ [E_AddRoute dst gw l ro])))"
  "GetNS (logged ops) (w, t) path =
     (case GetNS ops w path of (rn, w1) \<Rightarrow> (rn, (w1, t @ [E_GetNS path rn])))"
  "ns_enter (logged ops) (w, t) netns =
     (case ns_enter ops w netns of (rn, w1) \<Rightarrow> (rn, (w1, t @ [E_ns_enter netns rn])))"
  "ns_leave (logged ops) (w, t) hostNS = (ns_leave ops w hostNS, t @ [E_ns_leave hostNS])"
  by (simp_all add: logged_def)

lemma kernel_simps [simp]:
  "LinkByName kernel = k_LinkByName"
  "LinkAdd kernel = k_LinkAdd"
  "LinkSetUp kernel = (\<lambda>k l. k_update k l (\<lambda>d. d\<lparr>dev_up := True\<rparr>))"
  "LinkSetMaster kernel = k_LinkSetMaster"
  "LinkSetHairpin kernel = (\<lambda>k l b. k_update k l (\<lambda>d. d\<lparr>dev_hairpin := b\<rparr>))"
  "LinkSetHardwareAddr kernel = (\<lambda>k l hw. k_update k l (\<lambda>d. d\<lparr>dev_hwaddr := hw\<rparr>))"
  "AddrList kernel = k_AddrList"
  "AddrAdd kernel = k_AddrAdd"
  "SetupVeth kernel = k_SetupVeth"
  "AddRoute kernel = k_AddRoute"
  "GetNS kernel = k_GetNS"
  "ns_enter kernel = k_ns_enter"
  "ns_leave kernel = (\<lambda>k hostNS. k\<lparr>current_ns := hostNS\<rparr>)"
  by (simp_all add: kernel_def)

lemma refusing_kernel_simps [simp]:
  "LinkByName refusing_kernel = k_LinkByName"
  "LinkSetUp refusing_kernel = (\<lambda>k l. k_update k l (\<lambda>d. d\<lparr>dev_up := True\<rparr>))"
  "AddrAdd refusing_kernel = (\<lambda>k l a. (Some EPERM, k))"
  "AddRoute refusing_kernel = k_AddRoute"
  by (simp_all add: refusing_kernel_def kernel_def)

lemmas kernel_defs =
  k_LinkByName_def k_LinkAdd_def k_update_def k_LinkSetMaster_def k_AddrList_def k_AddrAdd_def
  k_SetupVeth_def k_AddRoute_def k_GetNS_def k_ns_enter_def find_name_def find_link_def
  update_dev_def new_device_def dev_name_def boot_def fresh_bridge_def AF_INET_def EEXIST_def
  ENOENT_def ENODEV_def

lemmas example_defs =
  host_with_bridge_def host_with_address_def host_with_other_br0_def in_container_def br0_def
  eth0_def ipam_def default_route_def other_route_def

text \<open>Searching the devices of the kernel.\<close>

lemma find_snoc: "find P xs = None \<Longrightarrow> P d \<Longrightarrow> find P (xs @ [d]) = Some d"
  by (induction xs) (auto split: if_splits)

lemma find_None_filter: "find P xs = None \<Longrightarrow> filter P xs = []"
  by (induction xs) (auto split: if_splits)

lemma find_None_map_other:
  "find P xs = None \<Longrightarrow> P d \<Longrightarrow> map (\<lambda>x. if x = d then f x else x) xs = xs"
  by (induction xs) (auto split: if_splits)

section \<open>The address computed for the bridge\<close>

lemma conf_simps [simp]:
  "BrName (conf subnet ip) = ''br0''" "BrSubnet (conf subnet ip) = subnet"
  "BrIP (conf subnet ip) = ip" "ConfMTU (conf subnet ip) = 1500"
  by (simp_all add: conf_def)

subsection \<open>With no address configured\<close>

text \<open>
  What the default branch computes, whatever the subnet: a panic when the network
  address has no 4-byte form, and otherwise the network address with one added to its
  last byte alone.
\<close>

lemma calculateBridgeIP_default:
  assumes "BrSubnet n \<noteq> ''''" and "BrIP n = ''''"
    and "ParseCIDR (BrSubnet n) = Inr (a, subnet)"
  shows "calculateBridgeIP n =
           (if To4 (IP subnet) = [] then Inl PanicIndexOutOfRange
            else Inr \<lparr>IP = IPv4 (To4 (IP subnet) ! 0) (To4 (IP subnet) ! 1) (To4 (IP subnet) ! 2)
                                 (To4 (IP subnet) ! 3 + 1),
                      Mask = Mask subnet\<rparr>)"
proof -
  have len: "length (To4 (IP subnet)) < 4 \<longleftrightarrow> To4 (IP subnet) = []"
    by (auto simp: To4_def)
  show ?thesis
    using assms by (simp add: calculateBridgeIP_def Let_def len)
qed

text \<open>
  C2. For a subnet that parses and no configured address, the claim is that the result
  is the network address incremented by one, with the prefix length of the subnet. The
  code adds one to the last byte only, as a byte: for the subnet \<open>10.0.0.255/32\<close> the
  network address is \<open>10.0.0.255\<close> and the result is \<open>10.0.0.0/32\<close>, while the
  address after \<open>10.0.0.255\<close> is \<open>10.0.1.0\<close>, which is what \<^verbatim>\<open>calcGatewayIP\<close> of the
  same file computes for that subnet. For \<open>10.0.0.0/24\<close> the result is \<open>10.0.0.1/24\<close>
  as the claim has it.
\<close>

theorem calculateBridgeIP_default_last_byte_wraps:
  "ParseCIDR ''10.0.0.255/32'' =
     Inr (IPv4 10 0 0 255, \<lparr>IP = [10, 0, 0, 255], Mask = [255, 255, 255, 255]\<rparr>)
   \<and> calculateBridgeIP (conf ''10.0.0.255/32'' '''') =
       Inr \<lparr>IP = IPv4 10 0 0 0, Mask = [255, 255, 255, 255]\<rparr>
   \<and> IPNet_String \<lparr>IP = IPv4 10 0 0 0, Mask = [255, 255, 255, 255]\<rparr> = ''10.0.0.0/32''
   \<and> calcGatewayIP \<lparr>IP = [10, 0, 0, 255], Mask = [255, 255, 255, 255]\<rparr> = [10, 0, 1, 0]
   \<and> calculateBridgeIP (conf ''10.0.0.0/24'' '''') =
       Inr \<lparr>IP = IPv4 10 0 0 1, Mask = [255, 255, 255, 0]\<rparr>
   \<and> IPNet_String \<lparr>IP = IPv4 10 0 0 1, Mask = [255, 255, 255, 0]\<rparr> = ''10.0.0.1/24''"
proof -
  have wrapped: "calculateBridgeIP (conf ''10.0.0.255/32'' '''') =
                   Inr \<lparr>IP = IPv4 10 0 0 0, Mask = [255, 255, 255, 255]\<rparr>"
    using calculateBridgeIP_default [of "conf ''10.0.0.255/32'' ''''" "IPv4 10 0 0 255"
        "\<lparr>IP = [10, 0, 0, 255], Mask = [255, 255, 255, 255]\<rparr>"] ParseCIDR_10_0_0_255_32
    by (simp add: To4_def IPv4_def)
  have first: "calculateBridgeIP (conf ''10.0.0.0/24'' '''') =
                 Inr \<lparr>IP = IPv4 10 0 0 1, Mask = [255, 255, 255, 0]\<rparr>"
    using calculateBridgeIP_default [of "conf ''10.0.0.0/24'' ''''" "IPv4 10 0 0 0"
        "\<lparr>IP = [10, 0, 0, 0], Mask = [255, 255, 255, 0]\<rparr>"] ParseCIDR_10_0_0_0_24
    by (simp add: To4_def)
  have "ipToInt [10, 0, 0, 255] = 167772415"
    by (simp add: ipToInt_def To4_def)
  moreover have "intToIP 167772416 = [10, 0, 1, 0]"
    by simp
  ultimately have "NextIP [10, 0, 0, 255] = [10, 0, 1, 0]"
    by (simp only: NextIP_def) simp
  then have next_address:
    "calcGatewayIP \<lparr>IP = [10, 0, 0, 255], Mask = [255, 255, 255, 255]\<rparr> = [10, 0, 1, 0]"
    by (simp add: calcGatewayIP_def IP_Mask_def)
  show ?thesis
    using wrapped first next_address ParseCIDR_10_0_0_255_32 IPNet_String_examples by simp
qed

text \<open>
  C10. The claim is that the default branch always ends with a value or an error, also
  for a subnet that is a valid IPv6 CIDR. The subnet \<open>fd00::/64\<close> parses; its network
  address is 16 bytes that are not an IPv4 address, \<^verbatim>\<open>To4\<close> returns \<^verbatim>\<open>nil\<close> for it,
  and \<^verbatim>\<open>brNetworkIPTo4[0]\<close> panics.
\<close>

theorem calculateBridgeIP_default_panics_on_IPv6:
  "ParseCIDR ''fd00::/64'' =
     Inr ([0xfd, 0, 0, 0, 0, 0, 0, 0, 0, 0, 0, 0, 0, 0, 0, 0],
          \<lparr>IP = [0xfd, 0, 0, 0, 0, 0, 0, 0, 0, 0, 0, 0, 0, 0, 0, 0],
           Mask = [255, 255, 255, 255, 255, 255, 255, 255, 0, 0, 0, 0, 0, 0, 0, 0]\<rparr>)
   \<and> To4 [0xfd, 0, 0, 0, 0, 0, 0, 0, 0, 0, 0, 0, 0, 0, 0, 0] = []
   \<and> calculateBridgeIP (conf ''fd00::/64'' '''') = Inl PanicIndexOutOfRange
   \<and> is_panic PanicIndexOutOfRange"
proof -
  have not_v4: "To4 [0xfd, 0, 0, 0, 0, 0, 0, 0, 0, 0, 0, 0, 0, 0, 0, 0] = []"
    by (simp add: To4_def v4InV6Prefix_def)
  have "calculateBridgeIP (conf ''fd00::/64'' '''') = Inl PanicIndexOutOfRange"
    using calculateBridgeIP_default [of "conf ''fd00::/64'' ''''"
        "[0xfd, 0, 0, 0, 0, 0, 0, 0, 0, 0, 0, 0, 0, 0, 0, 0]"
        "\<lparr>IP = [0xfd, 0, 0, 0, 0, 0, 0, 0, 0, 0, 0, 0, 0, 0, 0, 0],
          Mask = [255, 255, 255, 255, 255, 255, 255, 255, 0, 0, 0, 0, 0, 0, 0, 0]\<rparr>"]
      ParseCIDR_fd00_64 not_v4
    by simp
  then show ?thesis
    using ParseCIDR_fd00_64 not_v4 by simp
qed

subsection \<open>With an address configured\<close>

lemma calculateBridgeIP_explicit_eq:
  assumes "BrIP n \<noteq> ''''"
  shows "calculateBridgeIP n =
           (if BrSubnet n = '''' then Inl SubnetNotSpecified
            else case ParseCIDR (BrSubnet n) of
                   Inl e \<Rightarrow> Inl (InvalidSubnet e)
                 | Inr (a, subnet) \<Rightarrow>
                     (case parseAddrOrCIDR (BrIP n) of
                        None \<Rightarrow> Inl InvalidBridgeIP
                      | Some ip \<Rightarrow>
                          if Contains subnet ip then Inr \<lparr>IP = ip, Mask = Mask subnet\<rparr>
                          else Inl BridgeIPNotInSubnet))"
  using assms
  by (simp add: calculateBridgeIP_def parseAddrOrCIDR_def split: sum.splits prod.splits)

text \<open>
  C3. With \<open>BrIP\<close> set, \<^verbatim>\<open>calculateBridgeIP\<close> returns a network exactly when the
  subnet is there and parses, \<open>BrIP\<close> parses as an address or as a CIDR, and the address
  lies in the subnet; the network returned is that address with the mask of the subnet.
  It returns an error exactly when the subnet is missing or does not parse, or \<open>BrIP\<close>
  parses in neither way, or the address is outside the subnet; the error is never a
  panic.
\<close>

theorem calculateBridgeIP_explicit:
  assumes "BrIP n \<noteq> ''''"
  shows "(\<forall>r. calculateBridgeIP n = Inr r \<longleftrightarrow>
            (\<exists>a subnet ip. BrSubnet n \<noteq> '''' \<and> ParseCIDR (BrSubnet n) = Inr (a, subnet)
               \<and> parseAddrOrCIDR (BrIP n) = Some ip \<and> Contains subnet ip
               \<and> r = \<lparr>IP = ip, Mask = Mask subnet\<rparr>))
       \<and> ((\<exists>e. calculateBridgeIP n = Inl e) \<longleftrightarrow>
            (BrSubnet n = '''' \<or> (\<exists>e. ParseCIDR (BrSubnet n) = Inl e)
             \<or> parseAddrOrCIDR (BrIP n) = None
             \<or> (\<exists>a subnet ip. ParseCIDR (BrSubnet n) = Inr (a, subnet)
                  \<and> parseAddrOrCIDR (BrIP n) = Some ip \<and> \<not> Contains subnet ip)))
       \<and> (\<forall>e. calculateBridgeIP n = Inl e \<longrightarrow>
            e = SubnetNotSpecified \<or> (\<exists>x. e = InvalidSubnet x) \<or> e = InvalidBridgeIP
            \<or> e = BridgeIPNotInSubnet)"
proof (intro conjI allI)
  fix r
  show "calculateBridgeIP n = Inr r \<longleftrightarrow>
          (\<exists>a subnet ip. BrSubnet n \<noteq> '''' \<and> ParseCIDR (BrSubnet n) = Inr (a, subnet)
             \<and> parseAddrOrCIDR (BrIP n) = Some ip \<and> Contains subnet ip
             \<and> r = \<lparr>IP = ip, Mask = Mask subnet\<rparr>)"
    unfolding calculateBridgeIP_explicit_eq [OF assms]
    by (auto split: sum.splits prod.splits option.splits)
next
  show "(\<exists>e. calculateBridgeIP n = Inl e) \<longleftrightarrow>
          (BrSubnet n = '''' \<or> (\<exists>e. ParseCIDR (BrSubnet n) = Inl e)
           \<or> parseAddrOrCIDR (BrIP n) = None
           \<or> (\<exists>a subnet ip. ParseCIDR (BrSubnet n) = Inr (a, subnet)
                \<and> parseAddrOrCIDR (BrIP n) = Some ip \<and> \<not> Contains subnet ip))"
    unfolding calculateBridgeIP_explicit_eq [OF assms]
    by (auto split: sum.splits prod.splits option.splits)
next
  fix e
  show "calculateBridgeIP n = Inl e \<longrightarrow>
          e = SubnetNotSpecified \<or> (\<exists>x. e = InvalidSubnet x) \<or> e = InvalidBridgeIP
          \<or> e = BridgeIPNotInSubnet"
    unfolding calculateBridgeIP_explicit_eq [OF assms]
    by (auto split: sum.splits prod.splits option.splits if_splits)
qed

text \<open>
  The examples of C3: \<open>10.0.0.5\<close> in \<open>10.0.0.0/24\<close> gives \<open>10.0.0.5/24\<close>, also when it
  is written as the CIDR \<open>10.0.0.5/16\<close>, and \<open>10.1.0.5\<close> is refused.
\<close>

theorem calculateBridgeIP_explicit_witness:
  "calculateBridgeIP (conf ''10.0.0.0/24'' ''10.0.0.5'') =
     Inr \<lparr>IP = IPv4 10 0 0 5, Mask = [255, 255, 255, 0]\<rparr>
   \<and> IPNet_String \<lparr>IP = IPv4 10 0 0 5, Mask = [255, 255, 255, 0]\<rparr> = ''10.0.0.5/24''
   \<and> calculateBridgeIP (conf ''10.0.0.0/24'' ''10.0.0.5/16'') =
       Inr \<lparr>IP = IPv4 10 0 0 5, Mask = [255, 255, 255, 0]\<rparr>
   \<and> (\<exists>e. calculateBridgeIP (conf ''10.0.0.0/24'' ''10.1.0.5'') = Inl e)
   \<and> calculateBridgeIP (conf ''10.0.0.0/24'' ''10.1.0.5'') = Inl BridgeIPNotInSubnet"
proof -

  note subnet = ParseCIDR_10_0_0_0_24
  have ip1: "parseAddrOrCIDR ''10.0.0.5'' = Some (IPv4 10 0 0 5)"
    and ip2: "parseAddrOrCIDR ''10.0.0.5/16'' = Some (IPv4 10 0 0 5)"
    and ip3: "parseAddrOrCIDR ''10.1.0.5'' = Some (IPv4 10 1 0 5)"
    by (simp_all add: parseAddrOrCIDR_def ParseIP_examples ParseCIDR_10_0_0_5_16 IPv4_def)
  note inside = Contains_examples(1) and outside = Contains_examples(3)
  note str = IPNet_String_examples(3)
  have set1: "BrIP (conf ''10.0.0.0/24'' ''10.0.0.5'') \<noteq> ''''"
    and set2: "BrIP (conf ''10.0.0.0/24'' ''10.0.0.5/16'') \<noteq> ''''"
    and set3: "BrIP (conf ''10.0.0.0/24'' ''10.1.0.5'') \<noteq> ''''"
    by simp_all
  have r1: "calculateBridgeIP (conf ''10.0.0.0/24'' ''10.0.0.5'') =
              Inr \<lparr>IP = IPv4 10 0 0 5, Mask = [255, 255, 255, 0]\<rparr>"
    using calculateBridgeIP_explicit [OF set1] subnet ip1 inside by simp
  have r2: "calculateBridgeIP (conf ''10.0.0.0/24'' ''10.0.0.5/16'') =
              Inr \<lparr>IP = IPv4 10 0 0 5, Mask = [255, 255, 255, 0]\<rparr>"
    using calculateBridgeIP_explicit [OF set2] subnet ip2 inside by simp
  have r3: "\<exists>e. calculateBridgeIP (conf ''10.0.0.0/24'' ''10.1.0.5'') = Inl e"
    using calculateBridgeIP_explicit [OF set3] subnet ip3 outside by simp
  have r4: "calculateBridgeIP (conf ''10.0.0.0/24'' ''10.1.0.5'') = Inl BridgeIPNotInSubnet"
    using calculateBridgeIP_explicit_eq [OF set3] subnet ip3 outside by simp
  show ?thesis
    using r1 r2 r3 r4 str by simp
qed

end
